theory Spec2Isabelle
  imports Main "HOL-Library.Word"
begin

section \<open>Go values used by the rate limiter\<close>

text \<open>
  \<open>uint64\<close> is a 64-bit word compared unsigned. A \<open>time.Duration\<close> is an \<open>int64\<close>
  count of nanoseconds: a 64-bit word read with \<open>sint\<close>, so that the negation in
  \<open>now.Add(-r.Duration)\<close> wraps as Go's does. A \<open>time.Time\<close> is the number of
  nanoseconds since the Unix epoch, as an unbounded integer (the instants Go can
  represent reach far beyond any \<open>int64\<close> of nanoseconds).
\<close>

type_synonym uint64 = "64 word"
type_synonym Duration = "64 word"
type_synonym Time = int

definition Add :: "Time \<Rightarrow> Duration \<Rightarrow> Time" where
  "Add t d = t + sint d"

text \<open>\<open>t.UnixMilli()\<close>: whole seconds times 1000 plus the nanosecond part (never
  negative) divided by \<open>1e6\<close>, that is the floor of the nanoseconds over \<open>1e6\<close>,
  computed in \<open>int64\<close>: it wraps around for instants whose milliseconds do not fit.\<close>

definition UnixMilli :: "Time \<Rightarrow> int" where
  "UnixMilli t = sint (word_of_int (t div 1000000) :: 64 word)"

text \<open>
  \<open>float64(n)\<close> of an integer, and what the store reads from the decimal string of
  an integer: the nearest number with 53 significant bits, ties to the even one. The
  value is kept as the integer it is equal to. Below \<open>2^53 = 9007199254740992\<close> in
  absolute value nothing is rounded.
\<close>

function f64_shift :: "nat \<Rightarrow> nat" where
  "f64_shift a = (if a < 9007199254740992 then 0 else Suc (f64_shift (a div 2)))"
  by pat_completeness auto
termination
  by (relation "measure (\<lambda>a. a)") auto

definition f64_nat :: "nat \<Rightarrow> nat" where
  "f64_nat a =
     (let k = f64_shift a; q = a div 2 ^ k; r = a mod 2 ^ k
      in if 2 * r < 2 ^ k \<or> (2 * r = 2 ^ k \<and> even q) then q * 2 ^ k else (q + 1) * 2 ^ k)"

definition f64 :: "int \<Rightarrow> int" where
  "f64 x = (if x < 0 then - int (f64_nat (nat (- x))) else int (f64_nat (nat x)))"

text \<open>Errors: \<open>fmt.Errorf\<close> and the store client give plain errors,
  \<open>errors.Wrapf(cause, format, key)\<close> puts a message in front of a cause.\<close>

datatype go_error = ErrorString string | WithMessage go_error string

fun Cause :: "go_error \<Rightarrow> go_error" where
  "Cause (ErrorString m) = ErrorString m"
| "Cause (WithMessage c m) = Cause c"

fun Error :: "go_error \<Rightarrow> string" where
  "Error (ErrorString m) = m"
| "Error (WithMessage c m) = m @ '': '' @ Error c"

text \<open>Every format string of \<open>Run\<close> ends in its only verb \<open>%v\<close>, which prints the
  key: the message is the text before the verb followed by the key.\<close>

definition Wrapf :: "go_error \<Rightarrow> string \<Rightarrow> string \<Rightarrow> go_error" where
  "Wrapf err format key = WithMessage err (format @ key)"

section \<open>limiter.go: Request, State, Result\<close>

record Request =
  Key :: string
  Limit :: uint64
  Duration :: Duration

text \<open>\<open>State\<close> is an \<open>int16\<close>, with the two named constants \<open>Deny = 0\<close> and
  \<open>Allow = 1\<close>; every other \<open>int16\<close> is a \<open>State\<close> as well.\<close>

type_synonym State = "16 word"

definition Deny :: State where "Deny = 0"
definition Allow :: State where "Allow = 1"

record Result =
  State :: State
  TotalRequests :: uint64
  ExpiresAt :: Time

section \<open>The shared store: Redis sorted sets\<close>

text \<open>
  A sorted set holds members with a score each, a member at most once. A score is a
  \<open>float64\<close>; the scores \<open>Run\<close> stores are \<open>float64(now.UnixMilli())\<close>, whole numbers
  kept here as integers. A range bound arrives as a string: \<open>-inf\<close>, \<open>+inf\<close> or, from
  \<open>strconv.FormatInt\<close>, the decimal digits of an integer, which the store reads as a
  \<open>float64\<close>. A numeric bound is inclusive.
\<close>

type_synonym zset = "(string \<times> int) list"

datatype bound = NegInf | Score int | PosInf

fun above :: "bound \<Rightarrow> int \<Rightarrow> bool" where
  "above NegInf x = True"
| "above (Score m) x = (f64 m \<le> x)"
| "above PosInf x = False"

fun below :: "bound \<Rightarrow> int \<Rightarrow> bool" where
  "below NegInf x = False"
| "below (Score m) x = (x \<le> f64 m)"
| "below PosInf x = True"

definition in_range :: "bound \<Rightarrow> bound \<Rightarrow> string \<times> int \<Rightarrow> bool" where
  "in_range lo hi rec = (above lo (snd rec) \<and> below hi (snd rec))"

definition ZCount :: "zset \<Rightarrow> bound \<Rightarrow> bound \<Rightarrow> nat" where
  "ZCount z lo hi = length (filter (in_range lo hi) z)"

definition ZRemRangeByScore :: "zset \<Rightarrow> bound \<Rightarrow> bound \<Rightarrow> zset" where
  "ZRemRangeByScore z lo hi = filter (\<lambda>rec. \<not> in_range lo hi rec) z"

text \<open>\<open>ZADD\<close> of a member that is already there moves it to the new score.\<close>

definition ZAdd :: "zset \<Rightarrow> int \<Rightarrow> string \<Rightarrow> zset" where
  "ZAdd z score member = (member, score) # filter (\<lambda>rec. fst rec \<noteq> member) z"

text \<open>The store as \<open>Run\<close> sees it: the sorted set under every key, and the commands
  sent to it so far, in order.\<close>

datatype command =
  CmdZCount string bound bound
| CmdZRemRangeByScore string bound bound
| CmdZAdd string int string

record redis =
  data :: "string \<Rightarrow> zset"
  issued :: "command list"

text \<open>
  What one call of \<open>Run\<close> takes from outside: the reading of the injected clock, the
  identifier \<open>uuid.New()\<close> gives, and for each store command whether it reports an
  error. A failed probe comes back from \<open>Uint64()\<close> as an error together with some
  number (the client's zero value in practice). The client's \<open>Exec\<close> reports an error
  of its own, beside the errors of the three commands of the batch. A command that
  reports an error is taken not to have changed the data.
\<close>

record env =
  clock :: Time
  fresh_uuid :: string
  probe_fault :: "(go_error \<times> uint64) option"
  exec_err :: "go_error option"
  rem_err :: "go_error option"
  add_err :: "go_error option"
  count_err :: "go_error option"

section \<open>The sliding-window counter: counterStrategy.Run\<close>

definition minimum :: "env \<Rightarrow> Request \<Rightarrow> Time" where
  "minimum e r = Add (clock e) (- Duration r)"

text \<open>Line 54: the probe \<open>ZCount(key, minimum.UnixMilli(), "+inf").Uint64()\<close>, with
  the pair \<open>result, err\<close> it yields.\<close>

definition probe :: "redis \<Rightarrow> env \<Rightarrow> Request \<Rightarrow> uint64 \<times> go_error option" where
  "probe s e r =
     (case probe_fault e of
        None \<Rightarrow> (of_nat (ZCount (data s (Key r)) (Score (UnixMilli (minimum e r))) PosInf), None)
      | Some (err, v) \<Rightarrow> (v, Some err))"

definition probe_cmd :: "env \<Rightarrow> Request \<Rightarrow> command" where
  "probe_cmd e r = CmdZCount (Key r) (Score (UnixMilli (minimum e r))) PosInf"

text \<open>Line 55: the guard of the early return, \<open>err != nil && result >= r.Limit\<close>.\<close>

definition fast_reject :: "redis \<Rightarrow> env \<Rightarrow> Request \<Rightarrow> bool" where
  "fast_reject s e r = (snd (probe s e r) \<noteq> None \<and> Limit r \<le> fst (probe s e r))"

text \<open>Lines 68 to 80: the three commands queued on the pipeline.\<close>

definition batch_cmds :: "env \<Rightarrow> Request \<Rightarrow> command list" where
  "batch_cmds e r =
     [CmdZRemRangeByScore (Key r) (Score 0) (Score (UnixMilli (minimum e r))),
      CmdZAdd (Key r) (f64 (UnixMilli (clock e))) (fresh_uuid e),
      CmdZCount (Key r) NegInf PosInf]"

definition pruned :: "env \<Rightarrow> Request \<Rightarrow> zset \<Rightarrow> zset" where
  "pruned e r z =
     (if rem_err e = None then ZRemRangeByScore z (Score 0) (Score (UnixMilli (minimum e r)))
      else z)"

definition added :: "env \<Rightarrow> zset \<Rightarrow> zset" where
  "added e z =
     (if add_err e = None then ZAdd z (f64 (UnixMilli (clock e))) (fresh_uuid e) else z)"

definition after_batch :: "env \<Rightarrow> Request \<Rightarrow> zset \<Rightarrow> zset" where
  "after_batch e r z = added e (pruned e r z)"

text \<open>Lines 94 and 99: \<open>count.Result()\<close> is an \<open>int64\<close>, converted to \<open>uint64\<close>.\<close>

definition requests :: "redis \<Rightarrow> env \<Rightarrow> Request \<Rightarrow> uint64" where
  "requests s e r = of_nat (ZCount (after_batch e r (data s (Key r))) NegInf PosInf)"

text \<open>Lines 82 to 113: the checks after \<open>Exec\<close>, in the source's order.\<close>

definition write_result :: "redis \<Rightarrow> env \<Rightarrow> Request \<Rightarrow> go_error + Result" where
  "write_result s e r =
     (case exec_err e of
        Some err \<Rightarrow> Inl (Wrapf err ''failed to execute sorted set pipeline for key: '' (Key r))
      | None \<Rightarrow>
     (case rem_err e of
        Some err \<Rightarrow> Inl (Wrapf err ''failed to remove items from key '' (Key r))
      | None \<Rightarrow>
     (case add_err e of
        Some err \<Rightarrow> Inl (Wrapf err ''failed to add item to key '' (Key r))
      | None \<Rightarrow>
     (case count_err e of
        Some err \<Rightarrow> Inl (Wrapf err ''failed to count items for key '' (Key r))
      | None \<Rightarrow>
        (if Limit r < requests s e r
         then Inr \<lparr>State = Deny, TotalRequests = requests s e r,
                   ExpiresAt = Add (clock e) (Duration r)\<rparr>
         else Inr \<lparr>State = Allow, TotalRequests = requests s e r,
                   ExpiresAt = Add (clock e) (Duration r)\<rparr>)))))"

definition Run :: "redis \<Rightarrow> env \<Rightarrow> Request \<Rightarrow> (go_error + Result) \<times> redis" where
  "Run s e r =
     (let s1 = s\<lparr>issued := issued s @ [probe_cmd e r]\<rparr>
      in if fast_reject s e r
         then (Inr \<lparr>State = Deny, TotalRequests = fst (probe s e r),
                    ExpiresAt = Add (clock e) (Duration r)\<rparr>, s1)
         else (write_result s e r,
               s1\<lparr>data := (data s)(Key r := after_batch e r (data s (Key r))),
                   issued := issued s1 @ batch_cmds e r\<rparr>))"

text \<open>An evaluation in which no store command reports an error.\<close>

definition no_faults :: "env \<Rightarrow> bool" where
  "no_faults e = (probe_fault e = None \<and> exec_err e = None \<and> rem_err e = None \<and>
                  add_err e = None \<and> count_err e = None)"

text \<open>A caller evaluated again and again: each evaluation works on the store the one
  before it left.\<close>

fun Run_seq :: "redis \<Rightarrow> Request \<Rightarrow> env list \<Rightarrow> (go_error + Result) list" where
  "Run_seq s r [] = []"
| "Run_seq s r (e # es) = fst (Run s e r) # Run_seq (snd (Run s e r)) r es"

text \<open>The start of the window as the store reads it from \<open>minimum.UnixMilli()\<close>, the
  records of the caller whose score is exactly that, and the store without them.\<close>

definition window_start :: "env \<Rightarrow> Request \<Rightarrow> int" where
  "window_start e r = f64 (UnixMilli (minimum e r))"



text \<open>Evaluations that all lie in one window: the score under which each of them is
  recorded is above the start of the window of every one of them, as the store
  compares the two.\<close>

definition in_one_window :: "Request \<Rightarrow> env list \<Rightarrow> bool" where
  "in_one_window r es =
     list_all (\<lambda>e. list_all (\<lambda>e'. window_start e' r < f64 (UnixMilli (clock e))) es) es"

section \<open>middleware.go: the header extractor\<close>

text \<open>Of an HTTP request the extractor reads only \<open>r.Header.Get(key)\<close>, which is
  the empty string for a header that is not set. \<open>strings.TrimSpace\<close> is the standard
  library's and is passed in as \<open>trim\<close>.\<close>

record http_request =
  Header_Get :: "string \<Rightarrow> string"

text \<open>The loop of \<open>Extract\<close>: it gives up at the first header without a value.\<close>

fun collect ::
  "(string \<Rightarrow> string) \<Rightarrow> http_request \<Rightarrow> string list \<Rightarrow> string list \<Rightarrow> go_error + string list"
where
  "collect trim r [] values = Inr values"
| "collect trim r (key # keys) values =
     (if trim (Header_Get r key) = []
      then Inl (ErrorString (''the header '' @ key @ '' must have a value set''))
      else collect trim r keys (values @ [trim (Header_Get r key)]))"

fun Join :: "string list \<Rightarrow> string \<Rightarrow> string" where
  "Join [] sep = []"
| "Join [v] sep = v"
| "Join (v # w # vs) sep = v @ sep @ Join (w # vs) sep"

text \<open>\<open>Extract\<close> returns the pair \<open>(string, error)\<close>; \<open>None\<close> is the nil error and
  \<open>[]\<close> the empty string.\<close>

definition Extract ::
  "(string \<Rightarrow> string) \<Rightarrow> string list \<Rightarrow> http_request \<Rightarrow> string \<times> go_error option"
where
  "Extract trim headers r =
     (case collect trim r headers [] of
        Inl err \<Rightarrow> ([], Some err)
      | Inr values \<Rightarrow> (Join values ''-'', None))"

definition NewHTTPHeadersExtractor ::
  "(string \<Rightarrow> string) \<Rightarrow> string list \<Rightarrow> (http_request \<Rightarrow> string \<times> go_error option)"
where
  "NewHTTPHeadersExtractor trim headers = Extract trim headers"

section \<open>middleware.go: the rate limiting handler\<close>

text \<open>
  The response writer is the list of the calls made on it. Header values and
  bodies stay as the calls that format them (\<open>strconv.FormatUint\<close>,
  \<open>Time.Format(time.RFC3339)\<close>, \<open>fmt.Sprintf\<close>).
\<close>

datatype header_value = Text string | FormatUint uint64 | FormatRFC3339 Time

datatype body = Sprintf string "go_error list"

datatype writer_call =
  HeaderSet string header_value
| WriteHeader nat
| Write body

definition StatusBadRequest :: nat where "StatusBadRequest = 400"
definition StatusTooManyRequests :: nat where "StatusTooManyRequests = 429"
definition StatusInternalServerError :: nat where "StatusInternalServerError = 500"

definition rateLimitingTotalRequests :: string where
  "rateLimitingTotalRequests = ''Rate-Limiting-Total-Requests''"
definition rateLimitingState :: string where
  "rateLimitingState = ''Rate-Limiting-State''"
definition rateLimitingExpiresAt :: string where
  "rateLimitingExpiresAt = ''Rate-Limiting-Expires-At''"

text \<open>The map \<open>stateStrings\<close> has the two entries; a lookup of any other state gives
  the empty string.\<close>

definition stateStrings :: "State \<Rightarrow> string" where
  "stateStrings st =
     (if st = Allow then ''Allow'' else if st = Deny then ''Deny'' else [])"

definition writeResponse ::
  "writer_call list \<Rightarrow> nat \<Rightarrow> string \<Rightarrow> go_error list \<Rightarrow> writer_call list"
where
  "writeResponse writer status msg args =
     writer @ [HeaderSet ''Content-Type'' (Text ''text/plain''), WriteHeader status,
               Write (Sprintf msg args)]"

text \<open>
  The configuration holds the two interfaces as functions. A \<open>Strategy\<close> works on a
  world of its own (\<open>'w\<close>: for the counter, the store) and returns the pair
  \<open>(*Result, error)\<close>, either of which can be nil (\<open>None\<close>). One HTTP exchange is the
  response writer, the number of times the wrapped handler was called, whether the
  handler function panicked, and the strategy's world.
\<close>

record 'w RateLimiterConfig =
  Extractor :: "http_request \<Rightarrow> string \<times> go_error option"
  Strategy :: "Request \<Rightarrow> 'w \<Rightarrow> (Result option \<times> go_error option) \<times> 'w"
  Expiration :: Duration
  MaxRequests :: uint64

record 'w exchange =
  writer :: "writer_call list"
  served :: nat
  panicked :: bool
  world :: 'w

type_synonym handler = "http_request \<Rightarrow> writer_call list \<Rightarrow> writer_call list"

definition rate_headers :: "Result \<Rightarrow> writer_call list" where
  "rate_headers result =
     [HeaderSet rateLimitingTotalRequests (FormatUint (TotalRequests result)),
      HeaderSet rateLimitingState (Text (stateStrings (State result))),
      HeaderSet rateLimitingExpiresAt (FormatRFC3339 (ExpiresAt result))]"

text \<open>Lines 97 to 131. After the check of \<open>err\<close> the result is dereferenced: a nil
  result with a nil error panics there.\<close>

definition RateLimitingMiddleware ::
  "'w RateLimiterConfig \<Rightarrow> handler \<Rightarrow> http_request \<Rightarrow> 'w exchange \<Rightarrow> 'w exchange"
where
  "RateLimitingMiddleware config next req x =
     (case Extractor config req of
        (key, Some err) \<Rightarrow>
          x\<lparr>writer := writeResponse (writer x) StatusBadRequest
                 ''failed to collect rate limiting key from request: %v'' [err]\<rparr>
      | (key, None) \<Rightarrow>
         (case Strategy config
                 \<lparr>Key = key, Limit = MaxRequests config, Duration = Expiration config\<rparr>
                 (world x) of
            ((ro, eo), w) \<Rightarrow>
              (case eo of
                 Some err \<Rightarrow>
                   x\<lparr>writer := writeResponse (writer x) StatusInternalServerError
                          ''failed to run rate limiting for request: %v'' [err],
                     world := w\<rparr>
               | None \<Rightarrow>
                  (case ro of
                     None \<Rightarrow> x\<lparr>panicked := True, world := w\<rparr>
                   | Some result \<Rightarrow>
                      (if State result = Deny
                       then x\<lparr>writer := writeResponse (writer x @ rate_headers result)
                                  StatusTooManyRequests
                                  ''you have sent too many requests to this service, slow down please :)''
                                  [],
                              world := w\<rparr>
                       else x\<lparr>writer := next req (writer x @ rate_headers result),
                              served := Suc (served x),
                              world := w\<rparr>)))))"

text \<open>The counter as a \<open>Strategy\<close>: \<open>Run\<close> returns a result and a nil error, or a nil
  result and an error.\<close>

definition counterStrategy ::
  "env \<Rightarrow> Request \<Rightarrow> redis \<Rightarrow> (Result option \<times> go_error option) \<times> redis"
where
  "counterStrategy e r s =
     (case Run s e r of
        (Inl err, s') \<Rightarrow> ((None, Some err), s')
      | (Inr result, s') \<Rightarrow> ((Some result, None), s'))"

section \<open>Concrete evaluations\<close>

text \<open>An empty store, an evaluation in which every command succeeds, and requests of
  a caller with a window of one second.\<close>

definition store0 :: redis where
  "store0 = \<lparr>data = (\<lambda>k. []), issued = []\<rparr>"

definition env_ok :: "Time \<Rightarrow> string \<Rightarrow> env" where
  "env_ok t u = \<lparr>clock = t, fresh_uuid = u, probe_fault = None, exec_err = None,
                 rem_err = None, add_err = None, count_err = None\<rparr>"

definition request_of :: "string \<Rightarrow> uint64 \<Rightarrow> Duration \<Rightarrow> Request" where
  "request_of k l d = \<lparr>Key = k, Limit = l, Duration = d\<rparr>"

definition second :: Duration where
  "second = 1000000000"

text \<open>The store holding one record \<open>a\<close> of caller \<open>k\<close> with the given score.\<close>

definition store1 :: "int \<Rightarrow> redis" where
  "store1 score = \<lparr>data = (\<lambda>k. [])(''k'' := [(''a'', score)]), issued = []\<rparr>"

text \<open>An evaluation whose probe fails (the client hands back 0 with the error) while
  the batch succeeds.\<close>

definition env_probe_down :: "Time \<Rightarrow> string \<Rightarrow> env" where
  "env_probe_down t u = (env_ok t u)\<lparr>probe_fault := Some (ErrorString ''i/o timeout'', 0)\<rparr>"

text \<open>An evaluation whose batch fails on the insert: the command reports the error
  and \<open>Exec\<close> hands the same error back.\<close>

definition batch_down :: "env \<Rightarrow> env" where
  "batch_down e = e\<lparr>exec_err := Some (ErrorString ''i/o timeout''),
                     add_err := Some (ErrorString ''i/o timeout'')\<rparr>"

definition env_batch_down :: "Time \<Rightarrow> string \<Rightarrow> env" where
  "env_batch_down t u = batch_down (env_ok t u)"

text \<open>A handler behind the header extractor on \<open>X-Client\<close> and the counter, with a
  quota of one request a second; \<open>f\<close> puts the faults into the evaluation.\<close>

definition config0 :: "Time \<Rightarrow> string \<Rightarrow> (env \<Rightarrow> env) \<Rightarrow> redis RateLimiterConfig" where
  "config0 t u f =
     \<lparr>Extractor = NewHTTPHeadersExtractor id [''X-Client''],
      Strategy = counterStrategy (f (env_ok t u)),
      Expiration = second, MaxRequests = 1\<rparr>"

definition exchange0 :: "redis \<Rightarrow> redis exchange" where
  "exchange0 s = \<lparr>writer = [], served = 0, panicked = False, world = s\<rparr>"

definition request0 :: http_request where
  "request0 = \<lparr>Header_Get = (\<lambda>k. if k = ''X-Client'' then ''k'' else [])\<rparr>"

definition handler0 :: handler where
  "handler0 rq w = w @ [WriteHeader 200]"

text \<open>Another implementation of \<open>Strategy\<close>, which answers every request with the
  state 2 and no error.\<close>

definition config_other :: "unit RateLimiterConfig" where
  "config_other =
     \<lparr>Extractor = NewHTTPHeadersExtractor id [''X-Client''],
      Strategy = (\<lambda>r w. ((Some \<lparr>State = 2, TotalRequests = 0, ExpiresAt = 0\<rparr>, None), w)),
      Expiration = second, MaxRequests = 1\<rparr>"

definition exchange_other :: "unit exchange" where
  "exchange_other = \<lparr>writer = [], served = 0, panicked = False, world = ()\<rparr>"

text \<open>Three evaluations of one caller within a fifth of a second.\<close>

definition burst :: "env list" where
  "burst = [env_ok 5000000000 ''a'', env_ok 5100000000 ''b'', env_ok 5200000000 ''c'']"

section \<open>Numbers and states\<close>

lemma f64_small: "\<bar>x\<bar> < 9007199254740992 \<Longrightarrow> f64 x = x"
  by (auto simp: f64_def f64_nat_def)



lemma Deny_neq_Allow: "Deny \<noteq> Allow" "Allow \<noteq> Deny"
  by (simp_all add: Deny_def Allow_def)

lemmas run_defs =
  Run_def write_result_def requests_def after_batch_def added_def pruned_def batch_cmds_def
  fast_reject_def probe_cmd_def probe_def minimum_def window_start_def ZAdd_def
  ZRemRangeByScore_def ZCount_def in_range_def Add_def UnixMilli_def Wrapf_def f64_small
  Deny_neq_Allow

lemmas example_defs =
  store0_def store1_def env_ok_def env_probe_down_def env_batch_down_def batch_down_def
  request_of_def second_def

section \<open>The two paths of Run\<close>

lemma fast_reject_iff:
  "fast_reject s e r = (\<exists>err v. probe_fault e = Some (err, v) \<and> Limit r \<le> v)"
  by (auto simp: fast_reject_def probe_def split: option.splits)

lemma Run_fast:
  "fast_reject s e r \<Longrightarrow>
   Run s e r = (Inr \<lparr>State = Deny, TotalRequests = fst (probe s e r),
                     ExpiresAt = Add (clock e) (Duration r)\<rparr>,
                s\<lparr>issued := issued s @ [probe_cmd e r]\<rparr>)"
  by (simp add: Run_def)

lemma Run_write:
  "\<not> fast_reject s e r \<Longrightarrow>
   Run s e r = (write_result s e r,
                s\<lparr>data := (data s)(Key r := after_batch e r (data s (Key r))),
                  issued := issued s @ probe_cmd e r # batch_cmds e r\<rparr>)"
  by (simp add: Run_def)

lemma write_result_ok:
  "exec_err e = None \<Longrightarrow> rem_err e = None \<Longrightarrow> add_err e = None \<Longrightarrow> count_err e = None \<Longrightarrow>
   write_result s e r =
     Inr \<lparr>State = (if Limit r < requests s e r then Deny else Allow),
          TotalRequests = requests s e r, ExpiresAt = Add (clock e) (Duration r)\<rparr>"
  by (simp add: write_result_def)

lemma write_result_Inr:
  "write_result s e r = Inr res \<Longrightarrow>
   exec_err e = None \<and> rem_err e = None \<and> add_err e = None \<and> count_err e = None"
  by (auto simp: write_result_def split: option.splits)

lemma write_result_err:
  "exec_err e \<noteq> None \<or> rem_err e \<noteq> None \<or> add_err e \<noteq> None \<or> count_err e \<noteq> None \<Longrightarrow>
   \<exists>cause format. write_result s e r = Inl (Wrapf cause format (Key r)) \<and>
      Some cause \<in> {exec_err e, rem_err e, add_err e, count_err e}"
  by (auto simp: write_result_def split: option.splits)

section \<open>Helper facts on the store commands\<close>

lemma ZCount_all: "ZCount z NegInf PosInf = length z"
  by (simp add: ZCount_def in_range_def)

lemma no_faults_write: "no_faults e \<Longrightarrow> \<not> fast_reject s e r"
  by (simp add: no_faults_def fast_reject_iff)






lemma after_batch_ok:
  assumes "no_faults e" "fresh_uuid e \<notin> fst ` set z"
    "\<forall>rec\<in>set z. window_start e r < snd rec"
  shows "after_batch e r z = (fresh_uuid e, f64 (UnixMilli (clock e))) # z"
proof -
  have p: "pruned e r z = z"
    using assms(1,3)
    by (auto simp: pruned_def ZRemRangeByScore_def in_range_def no_faults_def filter_id_conv
        window_start_def)
  have "filter (\<lambda>rec. fst rec \<noteq> fresh_uuid e) z = z"
    using assms(2) by (induction z) auto
  with p assms(1) show ?thesis
    by (simp add: after_batch_def added_def ZAdd_def no_faults_def)
qed

lemma Run_ok:
  assumes "no_faults e"
  shows "fst (Run s e r) =
           Inr \<lparr>State = (if Limit r < requests s e r then Deny else Allow),
                TotalRequests = requests s e r, ExpiresAt = Add (clock e) (Duration r)\<rparr>"
    and "data (snd (Run s e r)) = (data s)(Key r := after_batch e r (data s (Key r)))"
  using assms by (simp_all add: Run_write no_faults_write write_result_ok no_faults_def)

lemma Run_seq_nth:
  assumes "list_all no_faults es" "distinct (map fresh_uuid es)"
    "fresh_uuid ` set es \<inter> fst ` set (data s (Key r)) = {}"
    "\<forall>e\<in>set es. \<forall>rec\<in>set (data s (Key r)). window_start e r < snd rec"
    "in_one_window r es" "i < length es"
  shows "Run_seq s r es ! i =
     Inr \<lparr>State = (if Limit r < of_nat (length (data s (Key r)) + Suc i) then Deny else Allow),
          TotalRequests = of_nat (length (data s (Key r)) + Suc i),
          ExpiresAt = Add (clock (es ! i)) (Duration r)\<rparr>"
  using assms
proof (induction es arbitrary: s i)
  case Nil
  then show ?case by simp
next
  case (Cons e es)
  from Cons.prems have nf: "no_faults e" by simp
  have ab: "after_batch e r (data s (Key r)) =
      (fresh_uuid e, f64 (UnixMilli (clock e))) # data s (Key r)"
    using Cons.prems by (intro after_batch_ok) auto
  have rq: "requests s e r = of_nat (length (data s (Key r)) + Suc 0)"
    by (simp add: requests_def ab ZCount_all)
  let ?s' = "snd (Run s e r)"
  have d: "data ?s' (Key r) = (fresh_uuid e, f64 (UnixMilli (clock e))) # data s (Key r)"
    by (simp add: Run_ok(2) [OF nf] ab)
  show ?case
  proof (cases i)
    case 0
    then show ?thesis by (simp add: Run_ok(1) [OF nf] rq)
  next
    case (Suc j)
    have w: "in_one_window r es"
      using Cons.prems(5) by (auto simp: in_one_window_def list_all_iff)
    have e_in: "\<forall>e'\<in>set es. window_start e' r < f64 (UnixMilli (clock e))"
      using Cons.prems(5) by (auto simp: in_one_window_def list_all_iff)
    have "Run_seq ?s' r es ! j =
      Inr \<lparr>State = (if Limit r < of_nat (length (data ?s' (Key r)) + Suc j) then Deny else Allow),
           TotalRequests = of_nat (length (data ?s' (Key r)) + Suc j),
           ExpiresAt = Add (clock (es ! j)) (Duration r)\<rparr>"
    proof (rule Cons.IH)
      show "list_all no_faults es" using Cons.prems(1) by simp
      show "distinct (map fresh_uuid es)" using Cons.prems(2) by simp
      show "fresh_uuid ` set es \<inter> fst ` set (data ?s' (Key r)) = {}"
        using Cons.prems(2,3) by (auto simp: d)
      show "\<forall>e\<in>set es. \<forall>rec\<in>set (data ?s' (Key r)). window_start e r < snd rec"
        using Cons.prems(4) e_in by (auto simp: d)
      show "in_one_window r es" by (rule w)
      show "j < length es" using Cons.prems(6) Suc by simp
    qed
    with Suc show ?thesis by (simp add: d)
  qed
qed

lemma allow_below:
  assumes "i < unat (l :: uint64)"
  shows "\<not> l < of_nat (Suc i)"
proof -
  have "unat l < 2 ^ 64" using unsigned_less [of l] by simp
  with assms have "Suc i mod 2 ^ 64 = Suc i" by simp
  then have "unat (of_nat (Suc i) :: uint64) = Suc i"
    by (simp only: unat_of_nat len_num0 len_bit0 len_num1) simp
  with assms show ?thesis by (simp add: word_less_nat_alt del: of_nat_Suc)
qed

lemma deny_above:
  assumes "(l :: uint64) \<noteq> - 1"
  shows "l < of_nat (Suc (unat l))"
proof -
  have eq: "of_nat (Suc (unat l)) = 1 + l" by simp
  from assms have "1 + l \<noteq> 0" by (simp add: add_eq_0_iff)
  then have "unat (1 + l) = Suc (unat l)" by (rule unatSuc)
  then show ?thesis by (simp add: eq word_less_nat_alt)
qed

lemma Run_seq_fresh:
  assumes "data s (Key r) = []" "list_all no_faults es" "distinct (map fresh_uuid es)"
    "in_one_window r es" "i < length es"
  shows "Run_seq s r es ! i =
     Inr \<lparr>State = (if Limit r < of_nat (Suc i) then Deny else Allow),
          TotalRequests = of_nat (Suc i),
          ExpiresAt = Add (clock (es ! i)) (Duration r)\<rparr>"
  using Run_seq_nth [of es s r i] assms by simp

lemma Run_write_boundary:
  assumes "\<not> fast_reject s e r" "fst (Run s e r) = Inr res"
  shows "(State res = Deny) = (Limit r < of_nat (ZCount (data (snd (Run s e r)) (Key r)) NegInf PosInf))"
    and "TotalRequests res = of_nat (ZCount (data (snd (Run s e r)) (Key r)) NegInf PosInf)"
    and "(fresh_uuid e, f64 (UnixMilli (clock e))) \<in> set (data (snd (Run s e r)) (Key r))"
proof -
  from assms have w: "write_result s e r = Inr res" by (simp add: Run_write)
  note ok = write_result_Inr [OF w]
  from w ok have res: "res =
      \<lparr>State = (if Limit r < requests s e r then Deny else Allow),
       TotalRequests = requests s e r, ExpiresAt = Add (clock e) (Duration r)\<rparr>"
    by (simp add: write_result_ok)
  have rq: "of_nat (ZCount (data (snd (Run s e r)) (Key r)) NegInf PosInf) = requests s e r"
    using assms(1) by (simp add: Run_write requests_def)
  show "(State res = Deny) =
      (Limit r < of_nat (ZCount (data (snd (Run s e r)) (Key r)) NegInf PosInf))"
    by (simp add: rq) (simp add: res Deny_neq_Allow)
  show "TotalRequests res = of_nat (ZCount (data (snd (Run s e r)) (Key r)) NegInf PosInf)"
    by (simp add: rq) (simp add: res)
  from ok show "(fresh_uuid e, f64 (UnixMilli (clock e))) \<in> set (data (snd (Run s e r)) (Key r))"
    using assms(1) by (simp add: Run_write after_batch_def added_def ZAdd_def)
qed

section \<open>The early return\<close>

text \<open>
  Claim C1. The claim asks for a Deny without any write when the probe succeeds with
  a count at or above the limit. Evaluated on a caller \<open>k\<close> with limit 1 who has one
  record inside the window, with every store command succeeding: the probe answers 1
  without error, and \<open>Run\<close> still sends the batch, inserts the record \<open>b\<close> and
  returns Deny with the count 2 taken after the insert. The guard on line 55 asks for
  \<open>err != nil\<close>: with limit 0 and a probe that fails, \<open>Run\<close> returns after the probe
  alone and never reaches the write path.
\<close>

theorem Run_over_limit_still_writes:
  "probe (store1 4500) (env_ok 5000000000 ''b'') (request_of ''k'' 1 second) = (1, None) \<and>
   fst (Run (store1 4500) (env_ok 5000000000 ''b'') (request_of ''k'' 1 second)) =
     Inr \<lparr>State = Deny, TotalRequests = 2, ExpiresAt = 6000000000\<rparr> \<and>
   data (snd (Run (store1 4500) (env_ok 5000000000 ''b'') (request_of ''k'' 1 second))) ''k'' =
     [(''b'', 5000), (''a'', 4500)] \<and>
   issued (snd (Run (store1 4500) (env_ok 5000000000 ''b'') (request_of ''k'' 1 second))) =
     [CmdZCount ''k'' (Score 4000) PosInf,
      CmdZRemRangeByScore ''k'' (Score 0) (Score 4000),
      CmdZAdd ''k'' 5000 ''b'',
      CmdZCount ''k'' NegInf PosInf] \<and>
   probe (store1 4500) (env_probe_down 5000000000 ''c'') (request_of ''k'' 0 second) =
     (0, Some (ErrorString ''i/o timeout'')) \<and>
   issued (snd (Run (store1 4500) (env_probe_down 5000000000 ''c'') (request_of ''k'' 0 second))) =
     [CmdZCount ''k'' (Score 4000) PosInf]"
  by (simp add: run_defs example_defs)

text \<open>
  Claim C2. The claim asks that an error of any store command comes back as an error.
  Evaluated with a probe that fails and a batch that succeeds: for a limit of 5
  \<open>Run\<close> returns an Allow result and no error, and for a limit of 0 it returns a Deny
  result and no error. The error of the probe is never returned.
\<close>

theorem Run_probe_error_not_surfaced:
  "probe store0 (env_probe_down 5000000000 ''b'') (request_of ''k'' 5 second) =
     (0, Some (ErrorString ''i/o timeout'')) \<and>
   fst (Run store0 (env_probe_down 5000000000 ''b'') (request_of ''k'' 5 second)) =
     Inr \<lparr>State = Allow, TotalRequests = 1, ExpiresAt = 6000000000\<rparr> \<and>
   fst (Run store0 (env_probe_down 5000000000 ''b'') (request_of ''k'' 0 second)) =
     Inr \<lparr>State = Deny, TotalRequests = 0, ExpiresAt = 6000000000\<rparr>"
  by (simp add: run_defs example_defs)

section \<open>No validation of the request\<close>

text \<open>A request with an empty key, a zero limit and a zero window is evaluated like
  any other: four commands go to the store and a result comes back.\<close>

theorem Run_invalid_request_counterexample:
  "fst (Run store0 (env_ok 5000000000 ''b'') (request_of [] 0 0)) =
     Inr \<lparr>State = Deny, TotalRequests = 1, ExpiresAt = 5000000000\<rparr> \<and>
   issued (snd (Run store0 (env_ok 5000000000 ''b'') (request_of [] 0 0))) =
     [CmdZCount [] (Score 5000) PosInf,
      CmdZRemRangeByScore [] (Score 0) (Score 5000),
      CmdZAdd [] 5000 ''b'',
      CmdZCount [] NegInf PosInf]"
  by (simp add: run_defs example_defs)

text \<open>
  Claim C6, as amended. \<open>Run\<close> does not validate the request. For every request, also
  one whose key is empty, whose limit is zero or whose window is not positive, it
  goes to the store: the probe is the first thing it does. And it returns an error
  only when a store command reported one: when none does, it returns a result.
\<close>

theorem Run_no_validation:
  "(\<exists>cs. issued (snd (Run s e r)) = issued s @ probe_cmd e r # cs) \<and>
   (no_faults e \<longrightarrow> (\<exists>res. fst (Run s e r) = Inr res))"
proof (intro conjI impI)
  show "\<exists>cs. issued (snd (Run s e r)) = issued s @ probe_cmd e r # cs"
    by (cases "fast_reject s e r") (simp_all add: Run_fast Run_write)
next
  assume nf: "no_faults e"
  then show "\<exists>res. fst (Run s e r) = Inr res"
    by (simp add: Run_write no_faults_write write_result_ok no_faults_def)
qed

theorem Run_no_validation_witness:
  "no_faults (env_ok 5000000000 ''b'') \<and>
   Key (request_of [] 0 0) = [] \<and> Limit (request_of [] 0 0) = 0 \<and>
   sint (Duration (request_of [] 0 0)) \<le> 0 \<and>
   (\<exists>res. fst (Run store0 (env_ok 5000000000 ''b'') (request_of [] 0 0)) = Inr res) \<and>
   (\<exists>cs. issued (snd (Run store0 (env_ok 5000000000 ''b'') (request_of [] 0 0))) =
      issued store0 @ probe_cmd (env_ok 5000000000 ''b'') (request_of [] 0 0) # cs)"
proof -
  have nf: "no_faults (env_ok 5000000000 ''b'')"
    by (simp add: no_faults_def env_ok_def)
  from Run_no_validation [of store0 "env_ok 5000000000 ''b''" "request_of [] 0 0"] nf
  show ?thesis by (simp add: request_of_def)
qed

section \<open>Records of denied operations\<close>

text \<open>A caller at the limit is denied by the write path, after the record of the denied
  operation went into the store: when the probe failed, and when it succeeded.\<close>

theorem Run_deny_after_insert_counterexample:
  "fst (Run (store1 4500) (env_probe_down 5000000000 ''b'') (request_of ''k'' 1 second)) =
     Inr \<lparr>State = Deny, TotalRequests = 2, ExpiresAt = 6000000000\<rparr> \<and>
   data (store1 4500) ''k'' = [(''a'', 4500)] \<and>
   data (snd (Run (store1 4500) (env_probe_down 5000000000 ''b'') (request_of ''k'' 1 second))) ''k'' =
     [(''b'', 5000), (''a'', 4500)] \<and>
   fst (Run (store1 4500) (env_ok 5000000000 ''c'') (request_of ''k'' 1 second)) =
     Inr \<lparr>State = Deny, TotalRequests = 2, ExpiresAt = 6000000000\<rparr> \<and>
   data (snd (Run (store1 4500) (env_ok 5000000000 ''c'') (request_of ''k'' 1 second))) ''k'' =
     [(''c'', 5000), (''a'', 4500)]"
  by (simp add: run_defs example_defs)

text \<open>
  Claim C4, as amended. A Deny of the early return follows the probe alone: the data
  of the store is unchanged and no other command was sent. A Deny of the write path
  is decided on the count taken after the insert: the record of this operation is in
  the caller's sorted set, the \<open>ZADD\<close> was sent, and \<open>TotalRequests\<close> counts the set
  with the new record in it.
\<close>

theorem Run_deny_paths:
  "(fast_reject s e r \<longrightarrow>
      (\<exists>res. fst (Run s e r) = Inr res \<and> State res = Deny) \<and>
      data (snd (Run s e r)) = data s \<and>
      issued (snd (Run s e r)) = issued s @ [probe_cmd e r]) \<and>
   (\<not> fast_reject s e r \<and> fst (Run s e r) = Inr res \<and> State res = Deny \<longrightarrow>
      (fresh_uuid e, f64 (UnixMilli (clock e))) \<in> set (data (snd (Run s e r)) (Key r)) \<and>
      TotalRequests res = of_nat (length (data (snd (Run s e r)) (Key r))) \<and>
      CmdZAdd (Key r) (f64 (UnixMilli (clock e))) (fresh_uuid e) \<in> set (issued (snd (Run s e r))))"
proof (intro conjI impI)
  assume "fast_reject s e r"
  then show "\<exists>res. fst (Run s e r) = Inr res \<and> State res = Deny"
    "data (snd (Run s e r)) = data s"
    "issued (snd (Run s e r)) = issued s @ [probe_cmd e r]"
    by (simp_all add: Run_fast)
next
  assume "\<not> fast_reject s e r \<and> fst (Run s e r) = Inr res \<and> State res = Deny"
  then have nf: "\<not> fast_reject s e r" and f: "fst (Run s e r) = Inr res"
    by simp_all
  from nf f have w: "write_result s e r = Inr res" by (simp add: Run_write)
  note ok = write_result_Inr [OF w]
  from nf ok show "(fresh_uuid e, f64 (UnixMilli (clock e))) \<in> set (data (snd (Run s e r)) (Key r))"
    by (simp add: Run_write after_batch_def added_def ZAdd_def)
  from w ok nf show "TotalRequests res = of_nat (length (data (snd (Run s e r)) (Key r)))"
    by (auto simp: Run_write write_result_ok requests_def ZCount_all)
  from nf show "CmdZAdd (Key r) (f64 (UnixMilli (clock e))) (fresh_uuid e) \<in> set (issued (snd (Run s e r)))"
    by (simp add: Run_write batch_cmds_def)
qed

theorem Run_deny_paths_witness:
  "fast_reject (store1 4500) (env_probe_down 5000000000 ''b'') (request_of ''k'' 0 second) \<and>
   fst (Run (store1 4500) (env_probe_down 5000000000 ''b'') (request_of ''k'' 0 second)) =
     Inr \<lparr>State = Deny, TotalRequests = 0, ExpiresAt = 6000000000\<rparr> \<and>
   data (snd (Run (store1 4500) (env_probe_down 5000000000 ''b'') (request_of ''k'' 0 second))) =
     data (store1 4500) \<and>
   issued (snd (Run (store1 4500) (env_probe_down 5000000000 ''b'') (request_of ''k'' 0 second))) =
     [CmdZCount ''k'' (Score 4000) PosInf] \<and>
   \<not> fast_reject (store1 4500) (env_ok 5000000000 ''b'') (request_of ''k'' 1 second) \<and>
   fst (Run (store1 4500) (env_ok 5000000000 ''b'') (request_of ''k'' 1 second)) =
     Inr \<lparr>State = Deny, TotalRequests = 2, ExpiresAt = 6000000000\<rparr> \<and>
   (''b'', 5000) \<in> set (data (snd (Run (store1 4500) (env_ok 5000000000 ''b'')
                                    (request_of ''k'' 1 second))) ''k'')"
proof -
  let ?r0 = "request_of ''k'' 0 second" and ?r1 = "request_of ''k'' 1 second"
  let ?down = "env_probe_down 5000000000 ''b''" and ?ok = "env_ok 5000000000 ''b''"
  have fr: "fast_reject (store1 4500) ?down ?r0"
    by (simp add: fast_reject_iff example_defs)
  have run0: "fst (Run (store1 4500) ?down ?r0) =
      Inr \<lparr>State = Deny, TotalRequests = 0, ExpiresAt = 6000000000\<rparr>"
    by (simp add: run_defs example_defs)
  have pc: "probe_cmd ?down ?r0 = CmdZCount ''k'' (Score 4000) PosInf"
    by (simp add: run_defs example_defs)
  have iss: "issued (store1 4500) = []" by (simp add: store1_def)
  have nfr: "\<not> fast_reject (store1 4500) ?ok ?r1"
    by (simp add: fast_reject_iff example_defs)
  have run1: "fst (Run (store1 4500) ?ok ?r1) =
      Inr \<lparr>State = Deny, TotalRequests = 2, ExpiresAt = 6000000000\<rparr>"
    by (simp add: run_defs example_defs)
  have sel: "fresh_uuid ?ok = ''b''" "f64 (UnixMilli (clock ?ok)) = 5000" "Key ?r1 = ''k''"
    by (simp_all add: example_defs UnixMilli_def f64_small)
  from Run_deny_paths [of "store1 4500" ?down ?r0] fr
  have a: "data (snd (Run (store1 4500) ?down ?r0)) = data (store1 4500) \<and>
      issued (snd (Run (store1 4500) ?down ?r0)) = [CmdZCount ''k'' (Score 4000) PosInf]"
    by (simp add: pc iss)
  from Run_deny_paths [of "store1 4500" ?ok ?r1
      "\<lparr>State = Deny, TotalRequests = 2, ExpiresAt = 6000000000\<rparr>"] nfr run1
  have b: "(''b'', 5000) \<in> set (data (snd (Run (store1 4500) ?ok ?r1)) ''k'')"
    by (simp add: sel)
  from fr run0 a nfr run1 b show ?thesis by simp
qed

section \<open>The edge of the window\<close>




section \<open>The decision of the write path\<close>

text \<open>Where the scores are rounded the window is the store's, not the clock's: at
  \<open>2^53 + 1\<close> milliseconds the record is stored with the score \<open>2^53\<close>, and an
  evaluation 999 milliseconds later, with a window of one second, prunes it.\<close>

lemma Run_seq_rounded_scores:
  "Run_seq store0 (request_of ''k'' 1 second)
     [env_ok 9007199254740993000000 ''a'', env_ok 9007199254741992000000 ''b''] =
     [Inr \<lparr>State = Allow, TotalRequests = 1, ExpiresAt = 9007199254741993000000\<rparr>,
      Inr \<lparr>State = Allow, TotalRequests = 1, ExpiresAt = 9007199254742992000000\<rparr>] \<and>
   \<not> in_one_window (request_of ''k'' 1 second)
     [env_ok 9007199254740993000000 ''a'', env_ok 9007199254741992000000 ''b'']"
  by (simp add: Run_def write_result_def requests_def after_batch_def added_def pruned_def
      batch_cmds_def fast_reject_def probe_cmd_def probe_def minimum_def window_start_def
      ZAdd_def ZRemRangeByScore_def ZCount_def in_range_def Add_def UnixMilli_def
      in_one_window_def f64_def f64_nat_def Deny_neq_Allow example_defs)

text \<open>
  Claim C3. On the write path a result is Deny exactly when the count taken after the
  insert, which includes the new record, is above the limit. So for a key with no
  records, evaluated again and again inside one window (each record's score above
  the start of every evaluation's window, as the store compares them) with fresh
  identifiers and no store errors, and a limit \<open>L\<close> below the largest \<open>uint64\<close>: the
  first \<open>L\<close> operations are allowed, the \<open>i\<close>-th with the count \<open>i\<close>, and operation
  \<open>L + 1\<close> is denied with the count \<open>L + 1\<close>.
\<close>

theorem Run_decision_boundary:
  "(\<not> fast_reject s e r \<and> fst (Run s e r) = Inr res \<longrightarrow>
      (State res = Deny) =
        (Limit r < of_nat (ZCount (data (snd (Run s e r)) (Key r)) NegInf PosInf)) \<and>
      TotalRequests res = of_nat (ZCount (data (snd (Run s e r)) (Key r)) NegInf PosInf) \<and>
      (fresh_uuid e, f64 (UnixMilli (clock e))) \<in> set (data (snd (Run s e r)) (Key r))) \<and>
   (data s0 (Key r0) = [] \<and> list_all no_faults es \<and> distinct (map fresh_uuid es) \<and>
    in_one_window r0 es \<and> Limit r0 \<noteq> - 1 \<and> unat (Limit r0) < length es \<longrightarrow>
      (\<forall>i<unat (Limit r0). Run_seq s0 r0 es ! i =
          Inr \<lparr>State = Allow, TotalRequests = of_nat (Suc i),
               ExpiresAt = Add (clock (es ! i)) (Duration r0)\<rparr>) \<and>
      Run_seq s0 r0 es ! unat (Limit r0) =
        Inr \<lparr>State = Deny, TotalRequests = Limit r0 + 1,
             ExpiresAt = Add (clock (es ! unat (Limit r0))) (Duration r0)\<rparr>)"
proof (intro conjI impI allI)
  assume "\<not> fast_reject s e r \<and> fst (Run s e r) = Inr res"
  then have a: "\<not> fast_reject s e r" "fst (Run s e r) = Inr res" by simp_all
  show "(State res = Deny) =
      (Limit r < of_nat (ZCount (data (snd (Run s e r)) (Key r)) NegInf PosInf))"
    by (rule Run_write_boundary(1) [OF a])
  show "TotalRequests res = of_nat (ZCount (data (snd (Run s e r)) (Key r)) NegInf PosInf)"
    by (rule Run_write_boundary(2) [OF a])
  show "(fresh_uuid e, f64 (UnixMilli (clock e))) \<in> set (data (snd (Run s e r)) (Key r))"
    by (rule Run_write_boundary(3) [OF a])
next
  fix i
  assume h: "data s0 (Key r0) = [] \<and> list_all no_faults es \<and> distinct (map fresh_uuid es) \<and>
    in_one_window r0 es \<and> Limit r0 \<noteq> - 1 \<and> unat (Limit r0) < length es"
    and i: "i < unat (Limit r0)"
  from h i have "i < length es" by simp
  with h have "Run_seq s0 r0 es ! i =
     Inr \<lparr>State = (if Limit r0 < of_nat (Suc i) then Deny else Allow),
          TotalRequests = of_nat (Suc i),
          ExpiresAt = Add (clock (es ! i)) (Duration r0)\<rparr>"
    by (intro Run_seq_fresh) simp_all
  with allow_below [OF i] show "Run_seq s0 r0 es ! i =
     Inr \<lparr>State = Allow, TotalRequests = of_nat (Suc i),
          ExpiresAt = Add (clock (es ! i)) (Duration r0)\<rparr>"
    by (simp del: of_nat_Suc)
next
  assume h: "data s0 (Key r0) = [] \<and> list_all no_faults es \<and> distinct (map fresh_uuid es) \<and>
    in_one_window r0 es \<and> Limit r0 \<noteq> - 1 \<and> unat (Limit r0) < length es"
  then have "Run_seq s0 r0 es ! unat (Limit r0) =
     Inr \<lparr>State = (if Limit r0 < of_nat (Suc (unat (Limit r0))) then Deny else Allow),
          TotalRequests = of_nat (Suc (unat (Limit r0))),
          ExpiresAt = Add (clock (es ! unat (Limit r0))) (Duration r0)\<rparr>"
    by (intro Run_seq_fresh) simp_all
  moreover from h have "Limit r0 < of_nat (Suc (unat (Limit r0)))"
    by (intro deny_above) simp
  moreover have "of_nat (Suc (unat (Limit r0))) = Limit r0 + 1" by simp
  ultimately show "Run_seq s0 r0 es ! unat (Limit r0) =
        Inr \<lparr>State = Deny, TotalRequests = Limit r0 + 1,
             ExpiresAt = Add (clock (es ! unat (Limit r0))) (Duration r0)\<rparr>"
    by (simp del: of_nat_Suc)
qed

theorem Run_decision_boundary_witness:
  "(\<not> fast_reject (store1 4500) (env_ok 5000000000 ''b'') (request_of ''k'' 1 second) \<and>
    fst (Run (store1 4500) (env_ok 5000000000 ''b'') (request_of ''k'' 1 second)) =
      Inr \<lparr>State = Deny, TotalRequests = 2, ExpiresAt = 6000000000\<rparr> \<and>
    ZCount (data (snd (Run (store1 4500) (env_ok 5000000000 ''b'') (request_of ''k'' 1 second)))
              ''k'') NegInf PosInf = 2 \<and>
    (''b'', 5000) \<in> set (data (snd (Run (store1 4500) (env_ok 5000000000 ''b'')
                                     (request_of ''k'' 1 second))) ''k'')) \<and>
   (data store0 (Key (request_of ''k'' 2 second)) = [] \<and> list_all no_faults burst \<and>
    distinct (map fresh_uuid burst) \<and> in_one_window (request_of ''k'' 2 second) burst \<and>
    Limit (request_of ''k'' 2 second) \<noteq> - 1 \<and>
    unat (Limit (request_of ''k'' 2 second)) < length burst \<and>
    Run_seq store0 (request_of ''k'' 2 second) burst ! 0 =
      Inr \<lparr>State = Allow, TotalRequests = 1, ExpiresAt = 6000000000\<rparr> \<and>
    Run_seq store0 (request_of ''k'' 2 second) burst ! 1 =
      Inr \<lparr>State = Allow, TotalRequests = 2, ExpiresAt = 6100000000\<rparr> \<and>
    Run_seq store0 (request_of ''k'' 2 second) burst ! 2 =
      Inr \<lparr>State = Deny, TotalRequests = 3, ExpiresAt = 6200000000\<rparr>)"
proof -
  let ?e = "env_ok 5000000000 ''b''" and ?r1 = "request_of ''k'' 1 second"
  let ?r2 = "request_of ''k'' 2 second"
  have nfr: "\<not> fast_reject (store1 4500) ?e ?r1"
    by (simp add: fast_reject_iff example_defs)
  have run1: "fst (Run (store1 4500) ?e ?r1) =
      Inr \<lparr>State = Deny, TotalRequests = 2, ExpiresAt = 6000000000\<rparr>"
    by (simp add: run_defs example_defs)
  have cnt: "ZCount (data (snd (Run (store1 4500) ?e ?r1)) ''k'') NegInf PosInf = 2"
    by (simp add: run_defs example_defs)
  have sel: "fresh_uuid ?e = ''b''" "f64 (UnixMilli (clock ?e)) = 5000" "Key ?r1 = ''k''"
    by (simp_all add: example_defs UnixMilli_def f64_small)
  from Run_decision_boundary [of "store1 4500" ?e ?r1 "\<lparr>State = Deny, TotalRequests = 2, ExpiresAt = 6000000000\<rparr>"]
    nfr run1
  have a: "(''b'', 5000) \<in> set (data (snd (Run (store1 4500) ?e ?r1)) ''k'')"
    by (simp add: sel)
  have h: "data store0 (Key ?r2) = []" "list_all no_faults burst"
    "distinct (map fresh_uuid burst)" "in_one_window ?r2 burst"
    "Limit ?r2 \<noteq> - 1" "unat (Limit ?r2) < length burst"
    by (simp_all add: burst_def no_faults_def in_one_window_def window_start_def minimum_def
        Add_def UnixMilli_def f64_small example_defs)
  have l: "unat (Limit ?r2) = 2" "Limit ?r2 + 1 = 3" "Duration ?r2 = second"
    by (simp_all add: request_of_def)
  have c: "Add (clock (burst ! 0)) second = 6000000000"
    "Add (clock (burst ! 1)) second = 6100000000"
    "Add (clock (burst ! 2)) second = 6200000000"
    by (simp_all add: burst_def Add_def example_defs)
  from Run_decision_boundary [of _ _ _ _ store0 ?r2 burst] h
  have b: "(\<forall>i<2. Run_seq store0 ?r2 burst ! i =
          Inr \<lparr>State = Allow, TotalRequests = of_nat (Suc i),
               ExpiresAt = Add (clock (burst ! i)) second\<rparr>) \<and>
      Run_seq store0 ?r2 burst ! 2 =
        Inr \<lparr>State = Deny, TotalRequests = 3, ExpiresAt = 6200000000\<rparr>"
    by (simp add: l c)
  then have b0: "Run_seq store0 ?r2 burst ! 0 =
      Inr \<lparr>State = Allow, TotalRequests = 1, ExpiresAt = 6000000000\<rparr>"
    and b1: "Run_seq store0 ?r2 burst ! 1 =
      Inr \<lparr>State = Allow, TotalRequests = 2, ExpiresAt = 6100000000\<rparr>"
    using c by auto
  from nfr run1 cnt a h b0 b1 b show ?thesis by simp
qed

section \<open>Errors of the batch\<close>

text \<open>
  Claim C7. On the write path (the early return was not taken), when \<open>Exec\<close> fails or
  the prune, the insert or the count reports an error, \<open>Run\<close> returns no result but an
  error: one of the reported errors, wrapped by \<open>Wrapf\<close> with a message that ends in
  the key.
\<close>

theorem Run_batch_error_wrapped:
  "\<not> fast_reject s e r \<and>
   (exec_err e \<noteq> None \<or> rem_err e \<noteq> None \<or> add_err e \<noteq> None \<or> count_err e \<noteq> None) \<longrightarrow>
   (\<exists>cause format. fst (Run s e r) = Inl (Wrapf cause format (Key r)) \<and>
      Some cause \<in> {exec_err e, rem_err e, add_err e, count_err e})"
  using write_result_err [of e s r] by (auto simp: Run_write)

theorem Run_batch_error_wrapped_witness:
  "\<not> fast_reject store0 (env_batch_down 5000000000 ''b'') (request_of ''k'' 1 second) \<and>
   add_err (env_batch_down 5000000000 ''b'') \<noteq> None \<and>
   fst (Run store0 (env_batch_down 5000000000 ''b'') (request_of ''k'' 1 second)) =
     Inl (Wrapf (ErrorString ''i/o timeout'')
            ''failed to execute sorted set pipeline for key: '' ''k'') \<and>
   Cause (Wrapf (ErrorString ''i/o timeout'')
            ''failed to execute sorted set pipeline for key: '' ''k'') =
     ErrorString ''i/o timeout'' \<and>
   Error (Wrapf (ErrorString ''i/o timeout'')
            ''failed to execute sorted set pipeline for key: '' ''k'') =
     ''failed to execute sorted set pipeline for key: k: i/o timeout''"
  using Run_batch_error_wrapped
    [of store0 "env_batch_down 5000000000 ''b''" "request_of ''k'' 1 second"]
  by (simp add: run_defs example_defs)

section \<open>The expiry hint\<close>

lemma Run_Inr_ExpiresAt:
  assumes "fst (Run s e r) = Inr res"
  shows "ExpiresAt res = Add (clock e) (Duration r)"
proof (cases "fast_reject s e r")
  case True
  with assms show ?thesis by (auto simp: Run_fast)
next
  case False
  with assms have w: "write_result s e r = Inr res" by (simp add: Run_write)
  from write_result_Inr [OF w] w show ?thesis
    by (auto simp: write_result_ok split: if_splits)
qed

text \<open>Two evaluations of the caller \<open>k\<close>, 200 milliseconds apart, the first with a
  window of one second and the second with a window of two: the two \<open>ExpiresAt\<close>
  are 1200 milliseconds apart.\<close>

theorem Run_ExpiresAt_counterexample:
  "fst (Run store0 (env_ok 5000000000 ''a'') (request_of ''k'' 5 1000000000)) =
     Inr \<lparr>State = Allow, TotalRequests = 1, ExpiresAt = 6000000000\<rparr> \<and>
   fst (Run (snd (Run store0 (env_ok 5000000000 ''a'') (request_of ''k'' 5 1000000000)))
          (env_ok 5200000000 ''b'') (request_of ''k'' 5 2000000000)) =
     Inr \<lparr>State = Allow, TotalRequests = 2, ExpiresAt = 7200000000\<rparr> \<and>
   (7200000000 :: Time) - 6000000000 \<noteq>
     clock (env_ok 5200000000 ''b'') - clock (env_ok 5000000000 ''a'')"
  by (simp add: run_defs example_defs)

text \<open>
  Claim C8, as amended. Every result \<open>Run\<close> returns, from the early return or from the
  write path, Allow or Deny, has \<open>ExpiresAt = now.Add(r.Duration)\<close>, the evaluation
  time plus the window of that request. For two evaluations the two \<open>ExpiresAt\<close>
  differ by the difference of the evaluation times plus the difference of the two
  windows: by exactly the difference of the evaluation times when the two requests
  have the same window.
\<close>

theorem Run_ExpiresAt:
  "(fst (Run s e r) = Inr res \<longrightarrow> ExpiresAt res = Add (clock e) (Duration r)) \<and>
   (fst (Run s1 e1 r1) = Inr res1 \<and> fst (Run s2 e2 r2) = Inr res2 \<longrightarrow>
      ExpiresAt res1 - ExpiresAt res2 =
        (clock e1 - clock e2) + (sint (Duration r1) - sint (Duration r2)) \<and>
      (Duration r1 = Duration r2 \<longrightarrow>
         ExpiresAt res1 - ExpiresAt res2 = clock e1 - clock e2))"
  by (auto dest!: Run_Inr_ExpiresAt simp: Add_def)

theorem Run_ExpiresAt_witness:
  "fst (Run store0 (env_ok 5000000000 ''a'') (request_of ''k'' 1 second)) =
     Inr \<lparr>State = Allow, TotalRequests = 1, ExpiresAt = 6000000000\<rparr> \<and>
   fst (Run (snd (Run store0 (env_ok 5000000000 ''a'') (request_of ''k'' 1 second)))
          (env_ok 5200000000 ''b'') (request_of ''k'' 1 second)) =
     Inr \<lparr>State = Deny, TotalRequests = 2, ExpiresAt = 6200000000\<rparr> \<and>
   Duration (request_of ''k'' 1 second) = Duration (request_of ''k'' 1 second) \<and>
   ExpiresAt \<lparr>State = Allow, TotalRequests = 1, ExpiresAt = 6000000000\<rparr> =
     Add (clock (env_ok 5000000000 ''a'')) (Duration (request_of ''k'' 1 second)) \<and>
   ExpiresAt \<lparr>State = Deny, TotalRequests = 2, ExpiresAt = 6200000000\<rparr> -
   ExpiresAt \<lparr>State = Allow, TotalRequests = 1, ExpiresAt = 6000000000\<rparr> =
     clock (env_ok 5200000000 ''b'') - clock (env_ok 5000000000 ''a'')"
proof -
  let ?ea = "env_ok 5000000000 ''a''" and ?eb = "env_ok 5200000000 ''b''"
  let ?r = "request_of ''k'' 1 second"
  let ?ra = "\<lparr>State = Allow, TotalRequests = 1, ExpiresAt = 6000000000\<rparr>"
  let ?rb = "\<lparr>State = Deny, TotalRequests = 2, ExpiresAt = 6200000000\<rparr>"
  have a: "fst (Run store0 ?ea ?r) = Inr ?ra"
    by (simp add: run_defs example_defs)
  have b: "fst (Run (snd (Run store0 ?ea ?r)) ?eb ?r) = Inr ?rb"
    by (simp add: run_defs example_defs)
  from Run_ExpiresAt [of store0 ?ea ?r ?ra "snd (Run store0 ?ea ?r)" ?eb ?r ?rb store0 ?ea ?r ?ra]
    a b
  have "ExpiresAt ?ra = Add (clock ?ea) (Duration ?r) \<and>
      ExpiresAt ?rb - ExpiresAt ?ra = clock ?eb - clock ?ea"
    by simp
  with a b show ?thesis by simp
qed

section \<open>The header extractor\<close>

text \<open>
  Claim C10. The extractor \<open>NewHTTPHeadersExtractor()\<close> built with no header names
  returns, for every request, the empty string as the key together with the nil
  error: the loop has nothing to visit and \<open>strings.Join\<close> of no values is empty. So
  an extraction can succeed with an empty caller key.
\<close>

theorem Extract_no_headers: "NewHTTPHeadersExtractor trim [] r = ([], None)"
  by (simp add: NewHTTPHeadersExtractor_def Extract_def)

section \<open>The middleware\<close>

lemma mw_extract_err:
  "Extractor config rq = (k, Some err) \<Longrightarrow>
   RateLimitingMiddleware config next rq x =
     x\<lparr>writer := writeResponse (writer x) StatusBadRequest
            ''failed to collect rate limiting key from request: %v'' [err]\<rparr>"
  by (simp add: RateLimitingMiddleware_def)

lemma mw_run_err:
  "Extractor config rq = (k, None) \<Longrightarrow>
   Strategy config \<lparr>Key = k, Limit = MaxRequests config, Duration = Expiration config\<rparr>
     (world x) = ((ro, Some err), w) \<Longrightarrow>
   RateLimitingMiddleware config next rq x =
     x\<lparr>writer := writeResponse (writer x) StatusInternalServerError
            ''failed to run rate limiting for request: %v'' [err], world := w\<rparr>"
  by (simp add: RateLimitingMiddleware_def)

lemma mw_panic:
  "Extractor config rq = (k, None) \<Longrightarrow>
   Strategy config \<lparr>Key = k, Limit = MaxRequests config, Duration = Expiration config\<rparr>
     (world x) = ((None, None), w) \<Longrightarrow>
   RateLimitingMiddleware config next rq x = x\<lparr>panicked := True, world := w\<rparr>"
  by (simp add: RateLimitingMiddleware_def)

lemma mw_deny:
  "Extractor config rq = (k, None) \<Longrightarrow>
   Strategy config \<lparr>Key = k, Limit = MaxRequests config, Duration = Expiration config\<rparr>
     (world x) = ((Some result, None), w) \<Longrightarrow> State result = Deny \<Longrightarrow>
   RateLimitingMiddleware config next rq x =
     x\<lparr>writer := writeResponse (writer x @ rate_headers result) StatusTooManyRequests
            ''you have sent too many requests to this service, slow down please :)'' [],
       world := w\<rparr>"
  by (simp add: RateLimitingMiddleware_def)

lemma mw_allow:
  "Extractor config rq = (k, None) \<Longrightarrow>
   Strategy config \<lparr>Key = k, Limit = MaxRequests config, Duration = Expiration config\<rparr>
     (world x) = ((Some result, None), w) \<Longrightarrow> State result \<noteq> Deny \<Longrightarrow>
   RateLimitingMiddleware config next rq x =
     x\<lparr>writer := next rq (writer x @ rate_headers result), served := Suc (served x),
       world := w\<rparr>"
  by (simp add: RateLimitingMiddleware_def)

lemma mw_served_only_not_deny:
  assumes "served (RateLimitingMiddleware config next rq x) \<noteq> served x"
  shows "\<exists>k res w'. Extractor config rq = (k, None) \<and>
           Strategy config \<lparr>Key = k, Limit = MaxRequests config, Duration = Expiration config\<rparr>
             (world x) = ((Some res, None), w') \<and> State res \<noteq> Deny"
proof -
  obtain k oe where ex: "Extractor config rq = (k, oe)"
    by (cases "Extractor config rq")
  show ?thesis
  proof (cases oe)
    case (Some err)
    with ex assms show ?thesis by (simp add: mw_extract_err)
  next
    case None
    obtain ro eo w' where st:
      "Strategy config \<lparr>Key = k, Limit = MaxRequests config, Duration = Expiration config\<rparr>
         (world x) = ((ro, eo), w')"
      by (cases "Strategy config
            \<lparr>Key = k, Limit = MaxRequests config, Duration = Expiration config\<rparr> (world x)")
        auto
    show ?thesis
    proof (cases eo)
      case (Some err)
      with ex None st assms show ?thesis by (simp add: mw_run_err)
    next
      case no_err: None
      show ?thesis
      proof (cases ro)
        case None
        with ex \<open>oe = None\<close> st no_err assms show ?thesis by (simp add: mw_panic)
      next
        case (Some res)
        show ?thesis
        proof (cases "State res = Deny")
          case True
          with ex \<open>oe = None\<close> st no_err Some assms show ?thesis by (simp add: mw_deny)
        next
          case False
          with ex \<open>oe = None\<close> st no_err Some show ?thesis by auto
        qed
      qed
    qed
  qed
qed

lemma Run_State:
  assumes "fst (Run s e r) = Inr res"
  shows "State res = Deny \<or> State res = Allow"
proof (cases "fast_reject s e r")
  case True
  with assms show ?thesis by (auto simp: Run_fast)
next
  case False
  with assms have w: "write_result s e r = Inr res" by (simp add: Run_write)
  from write_result_Inr [OF w] w show ?thesis
    by (auto simp: write_result_ok split: if_splits)
qed

lemma counterStrategy_Inl:
  "fst (Run s e r) = Inl err \<Longrightarrow> counterStrategy e r s = ((None, Some err), snd (Run s e r))"
  by (cases "Run s e r") (simp add: counterStrategy_def)

lemma counterStrategy_Inr:
  "fst (Run s e r) = Inr res \<Longrightarrow> counterStrategy e r s = ((Some res, None), snd (Run s e r))"
  by (cases "Run s e r") (simp add: counterStrategy_def)

text \<open>A strategy that answers with the state 2 and no error: the wrapped handler is
  called, and the state is not Allow.\<close>

theorem RateLimitingMiddleware_state_counterexample:
  "Strategy config_other
     \<lparr>Key = ''k'', Limit = MaxRequests config_other, Duration = Expiration config_other\<rparr> () =
     ((Some \<lparr>State = 2, TotalRequests = 0, ExpiresAt = 0\<rparr>, None), ()) \<and>
   (2 :: State) \<noteq> Allow \<and>
   served exchange_other = 0 \<and>
   served (RateLimitingMiddleware config_other handler0 request0 exchange_other) = 1"
  by (simp add: RateLimitingMiddleware_def config_other_def exchange_other_def request0_def
      NewHTTPHeadersExtractor_def Extract_def Allow_def Deny_def)

text \<open>
  Claim C9, as amended. For a request whose key was extracted: when the strategy
  returns an error the middleware writes the 500 response and does not call the
  wrapped handler; when it returns a result with state Deny the middleware sets the
  rate limiting headers, writes the 429 response and does not call the wrapped
  handler. The wrapped handler is called, once, exactly when the key was extracted
  and the strategy returned no error and a result whose state is not Deny: Allow or
  any other \<open>int16\<close>. The counter returns no state but Deny and Allow.
\<close>

theorem RateLimitingMiddleware_outcomes:
  "(Extractor config rq = (key, None) \<and>
    Strategy config \<lparr>Key = key, Limit = MaxRequests config, Duration = Expiration config\<rparr>
      (world x) = ((ro, Some err), w) \<longrightarrow>
      writer (RateLimitingMiddleware config next rq x) =
        writer x @
        [HeaderSet ''Content-Type'' (Text ''text/plain''), WriteHeader 500,
         Write (Sprintf ''failed to run rate limiting for request: %v'' [err])] \<and>
      served (RateLimitingMiddleware config next rq x) = served x) \<and>
   (Extractor config rq = (key, None) \<and>
    Strategy config \<lparr>Key = key, Limit = MaxRequests config, Duration = Expiration config\<rparr>
      (world x) = ((Some result, None), w) \<and> State result = Deny \<longrightarrow>
      writer (RateLimitingMiddleware config next rq x) =
        writer x @
        [HeaderSet ''Rate-Limiting-Total-Requests'' (FormatUint (TotalRequests result)),
         HeaderSet ''Rate-Limiting-State'' (Text ''Deny''),
         HeaderSet ''Rate-Limiting-Expires-At'' (FormatRFC3339 (ExpiresAt result)),
         HeaderSet ''Content-Type'' (Text ''text/plain''), WriteHeader 429,
         Write (Sprintf
           ''you have sent too many requests to this service, slow down please :)'' [])] \<and>
      served (RateLimitingMiddleware config next rq x) = served x) \<and>
   (served (RateLimitingMiddleware config next rq x) \<noteq> served x) =
     (\<exists>k res w'. Extractor config rq = (k, None) \<and>
        Strategy config \<lparr>Key = k, Limit = MaxRequests config, Duration = Expiration config\<rparr>
          (world x) = ((Some res, None), w') \<and> State res \<noteq> Deny \<and>
        writer (RateLimitingMiddleware config next rq x) =
          next rq (writer x @ rate_headers res) \<and>
        served (RateLimitingMiddleware config next rq x) = Suc (served x)) \<and>
   (fst (Run s e r) = Inr res' \<longrightarrow> State res' = Deny \<or> State res' = Allow)"
proof (intro conjI impI)
  assume "Extractor config rq = (key, None) \<and>
    Strategy config \<lparr>Key = key, Limit = MaxRequests config, Duration = Expiration config\<rparr>
      (world x) = ((ro, Some err), w)"
  then have a: "Extractor config rq = (key, None)"
    "Strategy config \<lparr>Key = key, Limit = MaxRequests config, Duration = Expiration config\<rparr>
      (world x) = ((ro, Some err), w)"
    by simp_all
  show "writer (RateLimitingMiddleware config next rq x) =
      writer x @
      [HeaderSet ''Content-Type'' (Text ''text/plain''), WriteHeader 500,
       Write (Sprintf ''failed to run rate limiting for request: %v'' [err])]"
    by (simp add: mw_run_err [OF a] writeResponse_def StatusInternalServerError_def)
  show "served (RateLimitingMiddleware config next rq x) = served x"
    by (simp add: mw_run_err [OF a])
next
  assume "Extractor config rq = (key, None) \<and>
    Strategy config \<lparr>Key = key, Limit = MaxRequests config, Duration = Expiration config\<rparr>
      (world x) = ((Some result, None), w) \<and> State result = Deny"
  then have a: "Extractor config rq = (key, None)"
    "Strategy config \<lparr>Key = key, Limit = MaxRequests config, Duration = Expiration config\<rparr>
      (world x) = ((Some result, None), w)" "State result = Deny"
    by simp_all
  show "writer (RateLimitingMiddleware config next rq x) =
      writer x @
      [HeaderSet ''Rate-Limiting-Total-Requests'' (FormatUint (TotalRequests result)),
       HeaderSet ''Rate-Limiting-State'' (Text ''Deny''),
       HeaderSet ''Rate-Limiting-Expires-At'' (FormatRFC3339 (ExpiresAt result)),
       HeaderSet ''Content-Type'' (Text ''text/plain''), WriteHeader 429,
       Write (Sprintf
         ''you have sent too many requests to this service, slow down please :)'' [])]"
    by (simp add: mw_deny [OF a] writeResponse_def StatusTooManyRequests_def rate_headers_def
        rateLimitingTotalRequests_def rateLimitingState_def rateLimitingExpiresAt_def
        stateStrings_def a(3) Deny_neq_Allow)
  show "served (RateLimitingMiddleware config next rq x) = served x"
    by (simp add: mw_deny [OF a])
next
  show "(served (RateLimitingMiddleware config next rq x) \<noteq> served x) =
     (\<exists>k res w'. Extractor config rq = (k, None) \<and>
        Strategy config \<lparr>Key = k, Limit = MaxRequests config, Duration = Expiration config\<rparr>
          (world x) = ((Some res, None), w') \<and> State res \<noteq> Deny \<and>
        writer (RateLimitingMiddleware config next rq x) =
          next rq (writer x @ rate_headers res) \<and>
        served (RateLimitingMiddleware config next rq x) = Suc (served x))"
  proof
    assume "served (RateLimitingMiddleware config next rq x) \<noteq> served x"
    from mw_served_only_not_deny [OF this] obtain k res w' where h:
      "Extractor config rq = (k, None)"
      "Strategy config \<lparr>Key = k, Limit = MaxRequests config, Duration = Expiration config\<rparr>
         (world x) = ((Some res, None), w')" "State res \<noteq> Deny"
      by blast
    from mw_allow [OF h, of "next"] h show "\<exists>k res w'. Extractor config rq = (k, None) \<and>
        Strategy config \<lparr>Key = k, Limit = MaxRequests config, Duration = Expiration config\<rparr>
          (world x) = ((Some res, None), w') \<and> State res \<noteq> Deny \<and>
        writer (RateLimitingMiddleware config next rq x) =
          next rq (writer x @ rate_headers res) \<and>
        served (RateLimitingMiddleware config next rq x) = Suc (served x)"
      by auto
  next
    assume "\<exists>k res w'. Extractor config rq = (k, None) \<and>
        Strategy config \<lparr>Key = k, Limit = MaxRequests config, Duration = Expiration config\<rparr>
          (world x) = ((Some res, None), w') \<and> State res \<noteq> Deny \<and>
        writer (RateLimitingMiddleware config next rq x) =
          next rq (writer x @ rate_headers res) \<and>
        served (RateLimitingMiddleware config next rq x) = Suc (served x)"
    then show "served (RateLimitingMiddleware config next rq x) \<noteq> served x" by auto
  qed
next
  assume "fst (Run s e r) = Inr res'"
  then show "State res' = Deny \<or> State res' = Allow" by (rule Run_State)
qed

lemma extract0: "Extractor (config0 t u f) request0 = (''k'', None)"
  by (simp add: config0_def request0_def NewHTTPHeadersExtractor_def Extract_def)

lemma config0_sel:
  "Strategy (config0 t u f) = counterStrategy (f (env_ok t u))"
  "MaxRequests (config0 t u f) = 1" "Expiration (config0 t u f) = second"
  by (simp_all add: config0_def)

lemma exchange0_sel:
  "writer (exchange0 s) = []" "served (exchange0 s) = 0" "world (exchange0 s) = s"
  by (simp_all add: exchange0_def)

lemma run_down:
  "fst (Run (store1 4500) (batch_down (env_ok 5000000000 ''b''))
      \<lparr>Key = ''k'', Limit = 1, Duration = second\<rparr>) =
    Inl (Wrapf (ErrorString ''i/o timeout'')
            ''failed to execute sorted set pipeline for key: '' ''k'')"
  by (simp add: run_defs example_defs)

lemma run_deny:
  "fst (Run (store1 4500) (id (env_ok 5000000000 ''b''))
      \<lparr>Key = ''k'', Limit = 1, Duration = second\<rparr>) =
    Inr \<lparr>State = Deny, TotalRequests = 2, ExpiresAt = 6000000000\<rparr>"
  by (simp add: run_defs example_defs)

lemma run_allow:
  "fst (Run store0 (id (env_ok 5000000000 ''b''))
      \<lparr>Key = ''k'', Limit = 1, Duration = second\<rparr>) =
    Inr \<lparr>State = Allow, TotalRequests = 1, ExpiresAt = 6000000000\<rparr>"
  by (simp add: run_defs example_defs)

theorem RateLimitingMiddleware_outcomes_witness:
  "(Extractor (config0 5000000000 ''b'' batch_down) request0 = (''k'', None) \<and>
    fst (Run (store1 4500) (batch_down (env_ok 5000000000 ''b''))
          \<lparr>Key = ''k'', Limit = 1, Duration = second\<rparr>) =
      Inl (Wrapf (ErrorString ''i/o timeout'')
             ''failed to execute sorted set pipeline for key: '' ''k'') \<and>
    writer (RateLimitingMiddleware (config0 5000000000 ''b'' batch_down) handler0 request0
             (exchange0 (store1 4500))) =
      [HeaderSet ''Content-Type'' (Text ''text/plain''), WriteHeader 500,
       Write (Sprintf ''failed to run rate limiting for request: %v''
         [Wrapf (ErrorString ''i/o timeout'')
            ''failed to execute sorted set pipeline for key: '' ''k''])] \<and>
    served (RateLimitingMiddleware (config0 5000000000 ''b'' batch_down) handler0 request0
             (exchange0 (store1 4500))) = 0) \<and>
   (fst (Run (store1 4500) (env_ok 5000000000 ''b'')
          \<lparr>Key = ''k'', Limit = 1, Duration = second\<rparr>) =
      Inr \<lparr>State = Deny, TotalRequests = 2, ExpiresAt = 6000000000\<rparr> \<and>
    writer (RateLimitingMiddleware (config0 5000000000 ''b'' id) handler0 request0
             (exchange0 (store1 4500))) =
      [HeaderSet ''Rate-Limiting-Total-Requests'' (FormatUint 2),
       HeaderSet ''Rate-Limiting-State'' (Text ''Deny''),
       HeaderSet ''Rate-Limiting-Expires-At'' (FormatRFC3339 6000000000),
       HeaderSet ''Content-Type'' (Text ''text/plain''), WriteHeader 429,
       Write (Sprintf
         ''you have sent too many requests to this service, slow down please :)'' [])] \<and>
    served (RateLimitingMiddleware (config0 5000000000 ''b'' id) handler0 request0
             (exchange0 (store1 4500))) = 0) \<and>
   (served (RateLimitingMiddleware (config0 5000000000 ''b'' id) handler0 request0
             (exchange0 store0)) = 1 \<and>
    served (exchange0 store0) = 0 \<and>
    fst (Run store0 (env_ok 5000000000 ''b'')
          \<lparr>Key = ''k'', Limit = 1, Duration = second\<rparr>) =
      Inr \<lparr>State = Allow, TotalRequests = 1, ExpiresAt = 6000000000\<rparr> \<and>
    (\<exists>k res w'. Extractor (config0 5000000000 ''b'' id) request0 = (k, None) \<and>
       Strategy (config0 5000000000 ''b'' id)
         \<lparr>Key = k, Limit = MaxRequests (config0 5000000000 ''b'' id),
          Duration = Expiration (config0 5000000000 ''b'' id)\<rparr>
         (world (exchange0 store0)) = ((Some res, None), w') \<and> State res \<noteq> Deny) \<and>
    (State \<lparr>State = Allow, TotalRequests = 1, ExpiresAt = 6000000000\<rparr> = Deny \<or>
     State \<lparr>State = Allow, TotalRequests = 1, ExpiresAt = 6000000000\<rparr> = Allow))"
proof -
  let ?down = "config0 5000000000 ''b'' batch_down"
  let ?ok = "config0 5000000000 ''b'' id"
  let ?rq = "\<lparr>Key = ''k'', Limit = 1, Duration = second\<rparr>"
  let ?err = "Wrapf (ErrorString ''i/o timeout'')
           ''failed to execute sorted set pipeline for key: '' ''k''"
  let ?deny = "\<lparr>State = Deny, TotalRequests = 2, ExpiresAt = 6000000000\<rparr>"
  let ?allow = "\<lparr>State = Allow, TotalRequests = 1, ExpiresAt = 6000000000\<rparr>"
  have a: "writer (RateLimitingMiddleware ?down handler0 request0 (exchange0 (store1 4500))) =
      [HeaderSet ''Content-Type'' (Text ''text/plain''), WriteHeader 500,
       Write (Sprintf ''failed to run rate limiting for request: %v'' [?err])] \<and>
    served (RateLimitingMiddleware ?down handler0 request0 (exchange0 (store1 4500))) = 0"
    using RateLimitingMiddleware_outcomes [of ?down request0 "''k''" "exchange0 (store1 4500)"
        None ?err "snd (Run (store1 4500) (batch_down (env_ok 5000000000 ''b'')) ?rq)" handler0]
      extract0 [of 5000000000 "''b''" batch_down] counterStrategy_Inl [OF run_down]
    by (simp add: config0_sel exchange0_sel)
  have b: "writer (RateLimitingMiddleware ?ok handler0 request0 (exchange0 (store1 4500))) =
      [HeaderSet ''Rate-Limiting-Total-Requests'' (FormatUint 2),
       HeaderSet ''Rate-Limiting-State'' (Text ''Deny''),
       HeaderSet ''Rate-Limiting-Expires-At'' (FormatRFC3339 6000000000),
       HeaderSet ''Content-Type'' (Text ''text/plain''), WriteHeader 429,
       Write (Sprintf
         ''you have sent too many requests to this service, slow down please :)'' [])] \<and>
    served (RateLimitingMiddleware ?ok handler0 request0 (exchange0 (store1 4500))) = 0"
    using RateLimitingMiddleware_outcomes [of ?ok request0 "''k''" "exchange0 (store1 4500)"
        _ _ "snd (Run (store1 4500) (id (env_ok 5000000000 ''b'')) ?rq)" handler0 ?deny]
      extract0 [of 5000000000 "''b''" id] counterStrategy_Inr [OF run_deny]
    by (simp add: config0_sel exchange0_sel)
  have c: "served (RateLimitingMiddleware ?ok handler0 request0 (exchange0 store0)) = 1"
    using mw_allow [of ?ok request0 "''k''" "exchange0 store0" ?allow
        "snd (Run store0 (id (env_ok 5000000000 ''b'')) ?rq)" handler0]
      extract0 [of 5000000000 "''b''" id] counterStrategy_Inr [OF run_allow]
    by (simp add: config0_sel exchange0_sel Deny_neq_Allow)
  have d: "\<exists>k res w'. Extractor ?ok request0 = (k, None) \<and>
      Strategy ?ok \<lparr>Key = k, Limit = MaxRequests ?ok, Duration = Expiration ?ok\<rparr>
        (world (exchange0 store0)) = ((Some res, None), w') \<and> State res \<noteq> Deny"
    using RateLimitingMiddleware_outcomes [of ?ok request0 _ "exchange0 store0" _ _ _ handler0] c
    by (simp add: exchange0_sel) blast
  have e: "State ?allow = Deny \<or> State ?allow = Allow"
    using RateLimitingMiddleware_outcomes [of _ _ _ _ _ _ _ _ _
        store0 "id (env_ok 5000000000 ''b'')" ?rq ?allow] run_allow
    by simp
  from a b c d e run_down run_deny run_allow extract0 [of 5000000000 "''b''" batch_down]
  show ?thesis by (simp add: exchange0_sel)
qed

end
